theory Spec2Isabelle
  imports Main "HOL-Library.Word" "HOL-Library.Signed_Division"
begin

section \<open>Data model of the monitor package\<close>

text \<open>
  Go's \<^verbatim>\<open>int64\<close> and \<^verbatim>\<open>time.Duration\<close> (an \<^verbatim>\<open>int64\<close> count of
  nanoseconds) are 64-bit words read as two's complement: comparisons are the signed ones
  (\<open><s\<close>, \<open>\<le>s\<close>).  A \<^verbatim>\<open>time.Time\<close> is the (unbounded) number of nanoseconds since
  Go's zero time, January 1 of year 1, so that the zero value of a \<^verbatim>\<open>time.Time\<close> field is
  \<open>0\<close>.  An \<^verbatim>\<open>error\<close> is represented by its text, which is what \<^verbatim>\<open>err.Error()\<close>
  returns; a function returning \<^verbatim>\<open>(T, error)\<close> returns \<open>error + T\<close>.
\<close>

type_synonym int64 = "64 word"
type_synonym Duration = "64 word"
type_synonym Time = int
type_synonym error = string

definition Nanosecond :: Duration where "Nanosecond = 1"
definition Millisecond :: Duration where "Millisecond = 1000000 * Nanosecond"
definition Second :: Duration where "Second = 1000 * Millisecond"
definition Minute :: Duration where "Minute = 60 * Second"
definition Hour :: Duration where "Hour = 60 * Minute"

text \<open>\<^verbatim>\<open>minDuration\<close> and \<^verbatim>\<open>maxDuration\<close> of package time.\<close>

definition minDuration :: Duration where "minDuration = - 9223372036854775808"
definition maxDuration :: Duration where "maxDuration = 9223372036854775807"

text \<open>
  \<^verbatim>\<open>t.Sub(u)\<close>: the duration \<open>t - u\<close>, saturated at the least and the greatest
  duration when the difference does not fit 64 bits.
\<close>

definition Time_Sub :: "Time \<Rightarrow> Time \<Rightarrow> Duration" where
  "Time_Sub t u =
     (if - 9223372036854775808 \<le> t - u \<and> t - u \<le> 9223372036854775807 then word_of_int (t - u)
      else if t < u then minDuration
      else maxDuration)"

text \<open>
  \<^verbatim>\<open>t.Add(d)\<close> and \<^verbatim>\<open>t.Before(u)\<close>.  (The instants of a \<^verbatim>\<open>time.Time\<close> span
  hundreds of billions of years; the model does not bound them.)
\<close>

definition Time_Add :: "Time \<Rightarrow> Duration \<Rightarrow> Time" where
  "Time_Add t d = t + sint d"

definition Time_Before :: "Time \<Rightarrow> Time \<Rightarrow> bool" where
  "Time_Before t u = (t < u)"

text \<open>\<^verbatim>\<open>d.Milliseconds()\<close> is \<^verbatim>\<open>int64(d) / 1e6\<close>, Go's division truncating towards zero.\<close>

definition Milliseconds :: "Duration \<Rightarrow> int64" where
  "Milliseconds d = word_of_int (sint d sdiv 1000000)"

datatype MonitorType = TypeUnknown | TypeHTTP

datatype Result = ResultUnknown | ResultUp | ResultDown | ResultWarn

text \<open>
  \<^verbatim>\<open>BaseMonitorResponse\<close>.  Its primary key \<^verbatim>\<open>ID\<close> is the field \<open>ResponseID\<close> here
  (a record field name is global and \<^verbatim>\<open>BaseMonitor\<close> has an \<^verbatim>\<open>ID\<close> too).
\<close>

record BaseMonitorResponse =
  ResponseID :: nat
  MonitorID :: nat
  ResponseTime :: Time
  Result :: Result
  ErrorMsg :: string

record SSLDetails =
  Valid :: bool
  Expiry :: Time

text \<open>\<^verbatim>\<open>HttpResponse\<close> embeds \<^verbatim>\<open>BaseMonitorResponse\<close>: a record extension.\<close>

record HttpResponse = BaseMonitorResponse +
  SslResp :: SSLDetails
  Latency :: int64
  DataValid :: bool
  StatusCodeValid :: bool

text \<open>
  \<^verbatim>\<open>BaseMonitor\<close>.  The columns \<^verbatim>\<open>CreatedAt\<close> and \<^verbatim>\<open>UpdatedAt\<close> are written by the
  ORM alone, never by the code of the repository, and are left out.
\<close>

record BaseMonitor =
  ID :: nat
  Type :: MonitorType
  IntervalInt :: int64
  Interval :: Duration
  Enabled :: bool
  LastMonitorTime :: Time
  IsMonitoring :: bool

text \<open>
  \<^verbatim>\<open>HttpMonitor\<close> embeds \<^verbatim>\<open>BaseMonitor\<close>.  A slice or a map that can be \<^verbatim>\<open>nil\<close> is an
  option (\<open>None\<close> is \<^verbatim>\<open>nil\<close>); the header map is an association list.
\<close>

record HttpMonitor = BaseMonitor +
  Address :: string
  ValidStatusCodes :: "int list option"
  ValidStatusCodesJSON :: string
  ShouldWarnOnSSLExpiry :: bool
  ShouldCheckSSL :: bool
  ExpectedResponse :: string
  ShouldCheckResponse :: bool
  ReqBody :: string
  ReqContentType :: string
  ReqHeaders :: "(string \<times> string) list option"
  ReqHeadersJSON :: string
  RequestMethod :: string
  ReqTimeoutInt :: int64
  ReqTimeout :: Duration

definition defaultHttpClientTimeout :: Duration where
  "defaultHttpClientTimeout = 30 * Second"

definition maxHttpClientTimeout :: Duration where
  "maxHttpClientTimeout = 5 * Minute"

definition minHttpClientTimeout :: Duration where
  "minHttpClientTimeout = 1 * Second"

section \<open>The persistence hooks\<close>

text \<open>
  Package \<^verbatim>\<open>encoding/json\<close> is not part of the repository: the four conversions the hooks
  call are parameters, each returning the error or the value.
\<close>

record json =
  Marshal_codes :: "int list \<Rightarrow> error + string"
  Marshal_headers :: "(string \<times> string) list \<Rightarrow> error + string"
  Unmarshal_codes :: "string \<Rightarrow> error + int list option"
  Unmarshal_headers :: "string \<Rightarrow> error + (string \<times> string) list option"

definition BaseMonitor_BeforeSave :: "'a BaseMonitor_scheme \<Rightarrow> error + 'a BaseMonitor_scheme" where
  "BaseMonitor_BeforeSave b = Inr (b\<lparr>IntervalInt := Interval b\<rparr>)"

definition BaseMonitor_AfterFind :: "'a BaseMonitor_scheme \<Rightarrow> error + 'a BaseMonitor_scheme" where
  "BaseMonitor_AfterFind b = Inr (b\<lparr>Interval := IntervalInt b\<rparr>)"

text \<open>The last block of \<^verbatim>\<open>HttpMonitor.BeforeSave\<close>: the timeout is defaulted, clamped and stored.\<close>

definition BeforeSave_timeout :: "HttpMonitor \<Rightarrow> HttpMonitor" where
  "BeforeSave_timeout hm =
     (let hm' =
        (if ReqTimeout hm = 0 then hm\<lparr>ReqTimeout := defaultHttpClientTimeout\<rparr>
         else if maxHttpClientTimeout <s ReqTimeout hm then hm\<lparr>ReqTimeout := maxHttpClientTimeout\<rparr>
         else if ReqTimeout hm <s minHttpClientTimeout then hm\<lparr>ReqTimeout := minHttpClientTimeout\<rparr>
         else hm)
      in hm'\<lparr>ReqTimeoutInt := ReqTimeout hm'\<rparr>)"

definition HttpMonitor_BeforeSave :: "json \<Rightarrow> HttpMonitor \<Rightarrow> error + HttpMonitor" where
  "HttpMonitor_BeforeSave js hm =
     (case BaseMonitor_BeforeSave hm of
        Inl err \<Rightarrow> Inl err
      | Inr hm1 \<Rightarrow>
          (case (case ValidStatusCodes hm1 of
                   None \<Rightarrow> Inr hm1
                 | Some codes \<Rightarrow>
                     (case Marshal_codes js codes of
                        Inl err \<Rightarrow> Inl err
                      | Inr validCodesJSON \<Rightarrow> Inr (hm1\<lparr>ValidStatusCodesJSON := validCodesJSON\<rparr>))) of
             Inl err \<Rightarrow> Inl err
           | Inr hm2 \<Rightarrow>
               (case (case ReqHeaders hm2 of
                        None \<Rightarrow> Inr hm2
                      | Some headers \<Rightarrow>
                          (case Marshal_headers js headers of
                             Inl err \<Rightarrow> Inl err
                           | Inr headersJSON \<Rightarrow> Inr (hm2\<lparr>ReqHeadersJSON := headersJSON\<rparr>))) of
                  Inl err \<Rightarrow> Inl err
                | Inr hm3 \<Rightarrow> Inr (BeforeSave_timeout hm3))))"

text \<open>The last block of \<^verbatim>\<open>HttpMonitor.AfterFind\<close>: the timeout is read back and clamped.\<close>

definition AfterFind_timeout :: "HttpMonitor \<Rightarrow> HttpMonitor" where
  "AfterFind_timeout hm =
     (let hm' = hm\<lparr>ReqTimeout := ReqTimeoutInt hm\<rparr>
      in if maxHttpClientTimeout <s ReqTimeout hm' then hm'\<lparr>ReqTimeout := maxHttpClientTimeout\<rparr>
         else if ReqTimeout hm' <s minHttpClientTimeout then hm'\<lparr>ReqTimeout := minHttpClientTimeout\<rparr>
         else hm')"

definition HttpMonitor_AfterFind :: "json \<Rightarrow> HttpMonitor \<Rightarrow> error + HttpMonitor" where
  "HttpMonitor_AfterFind js hm =
     (case BaseMonitor_AfterFind hm of
        Inl err \<Rightarrow> Inl err
      | Inr hm1 \<Rightarrow>
          (case (if ValidStatusCodesJSON hm1 \<noteq> [] then
                   (case Unmarshal_codes js (ValidStatusCodesJSON hm1) of
                      Inl err \<Rightarrow> Inl err
                    | Inr validCodes \<Rightarrow> Inr (hm1\<lparr>ValidStatusCodes := validCodes\<rparr>))
                 else Inr hm1) of
             Inl err \<Rightarrow> Inl err
           | Inr hm2 \<Rightarrow>
               (case (if ReqHeadersJSON hm2 \<noteq> [] then
                        (case Unmarshal_headers js (ReqHeadersJSON hm2) of
                           Inl err \<Rightarrow> Inl err
                         | Inr headers \<Rightarrow> Inr (hm2\<lparr>ReqHeaders := headers\<rparr>))
                      else Inr hm2) of
                  Inl err \<Rightarrow> Inl err
                | Inr hm3 \<Rightarrow> Inr (AfterFind_timeout hm3))))"

section \<open>The HTTP probe\<close>

text \<open>
  The probe talks to the network through packages \<^verbatim>\<open>net/http\<close>, \<^verbatim>\<open>net/url\<close>,
  \<^verbatim>\<open>crypto/tls\<close>, \<^verbatim>\<open>io\<close> and \<^verbatim>\<open>time\<close>.  What they answer is a parameter of the
  model, the record \<open>world\<close>:
  \<^item> \<open>NewRequestWithContext method url body\<close> is the request or the error of
    \<^verbatim>\<open>http.NewRequestWithContext\<close> (\<open>body = None\<close> is the \<^verbatim>\<open>nil\<close> reader);
  \<^item> \<open>Header_Set req key value\<close> is \<^verbatim>\<open>req.Header.Set(key, value)\<close>;
  \<^item> \<open>url_Parse address\<close> is the error of \<^verbatim>\<open>url.Parse\<close> or the \<^verbatim>\<open>Host\<close> of the URL;
  \<^item> \<open>tls_Dial hostname\<close> is the error of \<^verbatim>\<open>tls.Dial\<close> or the \<^verbatim>\<open>NotAfter\<close> of the
    first peer certificate of the connection;
  \<^item> \<open>client_Do timeout req\<close> is the error or the response of \<^verbatim>\<open>client.Do(req)\<close> for a
    client with that timeout (a cancelled context or a deadline is one of its errors);
  \<^item> \<open>clock n\<close> is what the \<open>n\<close>-th reading of the clock returns, counted from 0; the probe
    reads it four times on its longest path: \<^verbatim>\<open>ResponseTime\<close>, \<^verbatim>\<open>startTime\<close>,
    \<^verbatim>\<open>time.Since\<close> and the expiry comparison.
  A response is its status code and what \<^verbatim>\<open>io.ReadAll(resp.Body)\<close> returns when called.
  Logging is not modelled.
\<close>

record Response =
  StatusCode :: int
  Body :: "error + string"

record 'req world =
  NewRequestWithContext :: "string \<Rightarrow> string \<Rightarrow> string option \<Rightarrow> error + 'req"
  Header_Set :: "'req \<Rightarrow> string \<Rightarrow> string \<Rightarrow> 'req"
  url_Parse :: "string \<Rightarrow> error + string"
  tls_Dial :: "string \<Rightarrow> error + Time"
  client_Do :: "Duration \<Rightarrow> 'req \<Rightarrow> error + Response"
  clock :: "nat \<Rightarrow> Time"

text \<open>
  The probe returns its result and the list of the network operations it performed, in
  order: what it did not do (read a body, for instance) is then a property of the list.
\<close>

datatype io = IO_TLSDial | IO_ConnClose | IO_Do | IO_ReadAll | IO_BodyClose

text \<open>\<^verbatim>\<open>lo.Contains\<close> on a slice that may be \<^verbatim>\<open>nil\<close>.\<close>

definition lo_Contains :: "int list option \<Rightarrow> int \<Rightarrow> bool" where
  "lo_Contains collection element =
     (case collection of None \<Rightarrow> False | Some xs \<Rightarrow> element \<in> set xs)"

definition HttpMonitor_checkSSL :: "'req world \<Rightarrow> HttpMonitor \<Rightarrow> SSLDetails \<times> io list" where
  "HttpMonitor_checkSSL w hm =
     (let sslDetails = \<lparr>Valid = False, Expiry = 0\<rparr>
      in case url_Parse w (Address hm) of
           Inl err \<Rightarrow> (sslDetails\<lparr>Valid := False\<rparr>, [])
         | Inr host \<Rightarrow>
             (let hostname = (if CHR '':'' \<in> set host then host else host @ '':443'')
              in case tls_Dial w hostname of
                   Inl err \<Rightarrow> (sslDetails\<lparr>Valid := False\<rparr>, [IO_TLSDial])
                 | Inr notAfter \<Rightarrow>
                     (sslDetails\<lparr>Valid := True, Expiry := notAfter\<rparr>, [IO_TLSDial, IO_ConnClose])))"

text \<open>
  The request of the probe: the body reader, \<^verbatim>\<open>http.NewRequestWithContext\<close>, the content
  type and the custom headers (set in the order of the list; Go ranges over the map in
  an unspecified order).
\<close>

definition Monitor_request :: "'req world \<Rightarrow> HttpMonitor \<Rightarrow> error + 'req" where
  "Monitor_request w hm =
     (let body = (if 0 < length (ReqBody hm) then Some (ReqBody hm) else None)
      in case NewRequestWithContext w (RequestMethod hm) (Address hm) body of
           Inl err \<Rightarrow> Inl err
         | Inr req \<Rightarrow>
             (let req1 = (if ReqBody hm \<noteq> [] \<and> ReqContentType hm \<noteq> []
                          then Header_Set w req ''Content-Type'' (ReqContentType hm) else req)
              in Inr (foldl (\<lambda>r (key, val). Header_Set w r key val) req1
                        (case ReqHeaders hm of None \<Rightarrow> [] | Some headers \<Rightarrow> headers))))"

text \<open>The SSL sub-check runs when one of the two SSL flags is set.\<close>

definition Monitor_ssl :: "'req world \<Rightarrow> HttpMonitor \<Rightarrow> SSLDetails \<times> io list" where
  "Monitor_ssl w hm =
     (if ShouldCheckSSL hm \<or> ShouldWarnOnSSLExpiry hm then HttpMonitor_checkSSL w hm
      else (\<lparr>Valid = False, Expiry = 0\<rparr>, []))"

text \<open>The last decision of the probe, taken when no check has failed.\<close>

definition Monitor_outcome :: "'req world \<Rightarrow> HttpMonitor \<Rightarrow> HttpResponse \<Rightarrow> HttpResponse" where
  "Monitor_outcome w hm monitorResult =
     (if ShouldWarnOnSSLExpiry hm \<and>
         Time_Sub (Expiry (SslResp monitorResult)) (clock w 3) <s 30 * 24 * Hour
      then monitorResult\<lparr>Result := ResultWarn\<rparr>
      else monitorResult\<lparr>Result := ResultUp\<rparr>)"

definition HttpMonitor_Monitor :: "'req world \<Rightarrow> HttpMonitor \<Rightarrow> HttpResponse \<times> io list" where
  "HttpMonitor_Monitor w hm =
     (let monitorResult =
            \<lparr>ResponseID = 0, MonitorID = ID hm, ResponseTime = clock w 0, Result = ResultDown,
             ErrorMsg = [], SslResp = \<lparr>Valid = False, Expiry = 0\<rparr>, Latency = 0,
             DataValid = False, StatusCodeValid = False\<rparr>
      in case Monitor_request w hm of
           Inl err \<Rightarrow> (monitorResult\<lparr>ErrorMsg := err\<rparr>, [])
         | Inr req \<Rightarrow>
             (let (sslResp, ios) = Monitor_ssl w hm;
                  monitorResult1 = monitorResult\<lparr>SslResp := sslResp\<rparr>;
                  startTime = clock w 1
              in case client_Do w (ReqTimeout hm) req of
                   Inl err \<Rightarrow> (monitorResult1\<lparr>ErrorMsg := err\<rparr>, ios @ [IO_Do])
                 | Inr resp \<Rightarrow>
                     (let monitorResult2 = monitorResult1
                            \<lparr>Latency := Milliseconds (Time_Sub (clock w 2) startTime),
                             StatusCodeValid := lo_Contains (ValidStatusCodes hm) (StatusCode resp)\<rparr>
                      in if \<not> StatusCodeValid monitorResult2
                         then (monitorResult2\<lparr>Result := ResultDown\<rparr>, ios @ [IO_Do])
                         else if ShouldCheckResponse hm
                         then (case Body resp of
                                 Inl err \<Rightarrow>
                                   (monitorResult2\<lparr>ErrorMsg := err\<rparr>,
                                    ios @ [IO_Do, IO_ReadAll, IO_BodyClose])
                               | Inr gotResp \<Rightarrow>
                                   if gotResp \<noteq> ExpectedResponse hm
                                   then (monitorResult2
                                           \<lparr>ErrorMsg := ''response is not as expected: '' @ gotResp\<rparr>,
                                         ios @ [IO_Do, IO_ReadAll, IO_BodyClose])
                                   else (Monitor_outcome w hm monitorResult2,
                                         ios @ [IO_Do, IO_ReadAll, IO_BodyClose]))
                         else (Monitor_outcome w hm monitorResult2, ios @ [IO_Do, IO_BodyClose]))))"

section \<open>The store\<close>

text \<open>
  \<^verbatim>\<open>GormDb\<close> wraps a database handle.  The database is the state: the rows of the tables
  \<^verbatim>\<open>http_monitors\<close> and \<^verbatim>\<open>http_responses\<close>.  Every method runs one statement; the
  parameter \<open>stmt_err\<close> is the error the ORM answers that statement with for a reason of
  its own (a lost connection, a cancelled context, a violated constraint), \<open>None\<close> when the
  database executes the statement.  A statement that fails leaves the rows as they were.  A
  method returning \<^verbatim>\<open>error\<close> returns the new state and the error, \<open>None\<close> for
  \<^verbatim>\<open>nil\<close>.  The rows are kept in the order of the table; the keys the database assigns
  and the time stamps the ORM maintains are not modelled.
\<close>

record GormDb =
  http_monitors :: "HttpMonitor list"
  http_responses :: "HttpResponse list"

text \<open>The decimal digits of an unsigned integer: the verb \<^verbatim>\<open>%d\<close> of \<^verbatim>\<open>fmt.Errorf\<close>.\<close>

fun string_of_nat :: "nat \<Rightarrow> string" where
  "string_of_nat n =
     (if n < 10 then [char_of (48 + n)]
      else string_of_nat (n div 10) @ [char_of (48 + n mod 10)])"

text \<open>
  \<^verbatim>\<open>UPDATE http_monitors SET ... WHERE ...\<close>: the new rows and \<^verbatim>\<open>RowsAffected\<close>, the
  number of rows the condition selects.
\<close>

definition gorm_Updates ::
    "(HttpMonitor \<Rightarrow> bool) \<Rightarrow> (HttpMonitor \<Rightarrow> HttpMonitor) \<Rightarrow> GormDb \<Rightarrow> GormDb \<times> nat" where
  "gorm_Updates cond assign db =
     (db\<lparr>http_monitors := map (\<lambda>r. if cond r then assign r else r) (http_monitors db)\<rparr>,
      length (filter cond (http_monitors db)))"

definition GormDb_Lock :: "GormDb \<Rightarrow> error option \<Rightarrow> HttpMonitor \<Rightarrow> GormDb \<times> error option" where
  "GormDb_Lock db stmt_err mon =
     (case stmt_err of
        Some err \<Rightarrow> (db, Some err)
      | None \<Rightarrow>
          (let (db', RowsAffected) =
                 gorm_Updates (\<lambda>r. ID r = ID mon) (\<lambda>r. r\<lparr>IsMonitoring := True\<rparr>) db
           in if RowsAffected = 0
              then (db', Some (''monitor with ID '' @ string_of_nat (ID mon) @ '' not found''))
              else (db', None)))"

definition GormDb_Unlock ::
    "GormDb \<Rightarrow> error option \<Rightarrow> Time \<Rightarrow> HttpMonitor \<Rightarrow> GormDb \<times> error option" where
  "GormDb_Unlock db stmt_err now mon =
     (case stmt_err of
        Some err \<Rightarrow> (db, Some err)
      | None \<Rightarrow>
          (let (db', RowsAffected) =
                 gorm_Updates (\<lambda>r. ID r = ID mon)
                   (\<lambda>r. r\<lparr>IsMonitoring := False, LastMonitorTime := now\<rparr>) db
           in if RowsAffected = 0
              then (db', Some (''monitor with ID '' @ string_of_nat (ID mon) @ '' not found''))
              else (db', None)))"

text \<open>
  The file \<^verbatim>\<open>src/unnamed/part_001\<close> holds another revision of the store, whose
  \<^verbatim>\<open>Lock\<close> returns the error of the statement alone and does not look at
  \<^verbatim>\<open>RowsAffected\<close>.  The repository's test \<^verbatim>\<open>TestLock_Error\<close> expects an error from
  \<^verbatim>\<open>Lock\<close> for a monitor that is not stored, which only the revision above returns; the
  revision above is the one the properties are about.
\<close>

definition GormDb_Lock_part_001 ::
    "GormDb \<Rightarrow> error option \<Rightarrow> HttpMonitor \<Rightarrow> GormDb \<times> error option" where
  "GormDb_Lock_part_001 db stmt_err mon =
     (case stmt_err of
        Some err \<Rightarrow> (db, Some err)
      | None \<Rightarrow>
          (fst (gorm_Updates (\<lambda>r. ID r = ID mon) (\<lambda>r. r\<lparr>IsMonitoring := True\<rparr>) db), None))"

definition GormDb_SaveResult ::
    "GormDb \<Rightarrow> error option \<Rightarrow> HttpResponse \<Rightarrow> GormDb \<times> error option" where
  "GormDb_SaveResult db stmt_err result =
     (case stmt_err of
        Some err \<Rightarrow> (db, Some err)
      | None \<Rightarrow> (db\<lparr>http_responses := http_responses db @ [result]\<rparr>, None))"

text \<open>
  \<^verbatim>\<open>Find\<close> fills a fresh struct from each selected row, where the fields tagged
  \<^verbatim>\<open>gorm:"-"\<close> are no columns and keep their zero value, and calls the hook
  \<^verbatim>\<open>AfterFind\<close> on it; a hook that fails makes \<^verbatim>\<open>Find\<close> fail (the model returns
  the error of the first such hook; the callers only test that there is one).
\<close>

definition scan_row :: "HttpMonitor \<Rightarrow> HttpMonitor" where
  "scan_row r = r\<lparr>Interval := 0, ValidStatusCodes := None, ReqHeaders := None, ReqTimeout := 0\<rparr>"

fun AfterFind_rows :: "json \<Rightarrow> HttpMonitor list \<Rightarrow> error + HttpMonitor list" where
  "AfterFind_rows js [] = Inr []"
| "AfterFind_rows js (r # rs) =
     (case HttpMonitor_AfterFind js (scan_row r) of
        Inl err \<Rightarrow> Inl err
      | Inr mon \<Rightarrow>
          (case AfterFind_rows js rs of
             Inl err \<Rightarrow> Inl err
           | Inr mons \<Rightarrow> Inr (mon # mons)))"

definition gorm_Find ::
    "json \<Rightarrow> (HttpMonitor \<Rightarrow> bool) \<Rightarrow> GormDb \<Rightarrow> error option \<Rightarrow> error + HttpMonitor list" where
  "gorm_Find js cond db stmt_err =
     (case stmt_err of
        Some err \<Rightarrow> Inl err
      | None \<Rightarrow> AfterFind_rows js (filter cond (http_monitors db)))"

text \<open>
  \<^verbatim>\<open>GetMonitorsToRun\<close>: the query, then the loop over the monitors found, which appends
  the due ones (each iteration has a variable of its own, as the test
  \<^verbatim>\<open>TestGetMonitorsToRun\<close> of the repository requires).
\<close>

definition GormDb_GetMonitorsToRun ::
    "json \<Rightarrow> GormDb \<Rightarrow> error option \<Rightarrow> Time \<Rightarrow> error + HttpMonitor list" where
  "GormDb_GetMonitorsToRun js db stmt_err nowTime =
     (case gorm_Find js (\<lambda>r. Enabled r = True \<and> IsMonitoring r = False) db stmt_err of
        Inl err \<Rightarrow> Inl err
      | Inr monitors \<Rightarrow>
          Inr (foldl (\<lambda>results mon.
                        if Time_Before (Time_Add (LastMonitorTime mon) (Interval mon)) nowTime
                        then results @ [mon] else results)
                 [] monitors))"

section \<open>The work unit of the manager\<close>

text \<open>
  What the database answers to the three statements of one work unit, and the time at
  which \<^verbatim>\<open>Unlock\<close> reads the clock.
\<close>

record answers =
  lock_err :: "error option"
  save_err :: "error option"
  unlock_err :: "error option"
  unlock_now :: Time

text \<open>
  \<^verbatim>\<open>Manager.work\<close> calls the probe through the interface \<^verbatim>\<open>Monitorer\<close>: the probe is a
  parameter, and \<open>None\<close> is a probe that panics.  The work unit returns the state of the
  database, the store methods it called, in order, and how it ended: with the returned
  error, or with the panic of the probe, which propagates after the deferred call.
\<close>

datatype db_call = Call_Lock | Call_SaveResult | Call_Unlock

datatype work_end = Return "error option" | Panic

text \<open>The deferred function: \<^verbatim>\<open>Unlock\<close>, whose error is logged.\<close>

definition deferred_Unlock :: "GormDb \<Rightarrow> answers \<Rightarrow> HttpMonitor \<Rightarrow> GormDb" where
  "deferred_Unlock db a mon = fst (GormDb_Unlock db (unlock_err a) (unlock_now a) mon)"

definition Manager_work ::
    "GormDb \<Rightarrow> answers \<Rightarrow> (HttpMonitor \<Rightarrow> HttpResponse option) \<Rightarrow> HttpMonitor
      \<Rightarrow> GormDb \<times> db_call list \<times> work_end" where
  "Manager_work db a Monitor mon =
     (case GormDb_Lock db (lock_err a) mon of
        (db1, Some err) \<Rightarrow> (db1, [Call_Lock], Return (Some err))
      | (db1, None) \<Rightarrow>
          (case Monitor mon of
             None \<Rightarrow> (deferred_Unlock db1 a mon, [Call_Lock, Call_Unlock], Panic)
           | Some result \<Rightarrow>
               (case GormDb_SaveResult db1 (save_err a) result of
                  (db2, Some err) \<Rightarrow>
                    (deferred_Unlock db2 a mon, [Call_Lock, Call_SaveResult, Call_Unlock],
                     Return (Some err))
                | (db2, None) \<Rightarrow>
                    (deferred_Unlock db2 a mon, [Call_Lock, Call_SaveResult, Call_Unlock],
                     Return None))))"

section \<open>Predicates of the specification\<close>

text \<open>
  ``Every other check (transport, status code, body) passed'': the request could be built,
  the exchange returned a response, its status code is an accepted one and, when the body
  is validated, reading it succeeded and gave the expected string.  The predicate is about
  the world, not about what the probe returns.
\<close>

definition checks_passed :: "'req world \<Rightarrow> HttpMonitor \<Rightarrow> bool" where
  "checks_passed w hm =
     (case Monitor_request w hm of
        Inl err \<Rightarrow> False
      | Inr req \<Rightarrow>
          (case client_Do w (ReqTimeout hm) req of
             Inl err \<Rightarrow> False
           | Inr resp \<Rightarrow>
               lo_Contains (ValidStatusCodes hm) (StatusCode resp) \<and>
               (if ShouldCheckResponse hm then Body resp = Inr (ExpectedResponse hm) else True)))"

text \<open>
  ``Due'' as the specification words it, for a stored row: enabled, not in flight, and
  \<open>lastRunAt + interval \<le> now\<close>.
\<close>

definition spec_due :: "Time \<Rightarrow> HttpMonitor \<Rightarrow> bool" where
  "spec_due now r =
     (Enabled r \<and> \<not> IsMonitoring r \<and> LastMonitorTime r + sint (IntervalInt r) \<le> now)"

text \<open>A monitor exists in the store: a row has its identifier.\<close>

definition stored :: "GormDb \<Rightarrow> HttpMonitor \<Rightarrow> bool" where
  "stored db mon = (\<exists>r \<in> set (http_monitors db). ID r = ID mon)"

section \<open>Example inputs\<close>

text \<open>
  A codec that answers every conversion, a monitor modelled on those of the repository's
  tests (accepted code 200, expected body \<open>ok\<close>, a timeout of ten minutes as in
  \<^verbatim>\<open>TestHttpMonitor_BeforeSave_TimeoutValidation\<close>, an interval of one minute, never run),
  and a world in which the endpoint answers 200 with the body \<open>ok\<close>, the TLS connection
  fails, and every reading of the clock is the same instant of the year 2026.  The store
  \<open>example_db\<close> holds that monitor; \<open>boundary_db\<close> holds it with a last run exactly one
  interval before that instant.
\<close>

definition example_json :: json where
  "example_json =
     \<lparr>Marshal_codes = (\<lambda>codes. Inr ''[200]''),
      Marshal_headers = (\<lambda>headers. Inr ''{}''),
      Unmarshal_codes = (\<lambda>s. Inr (Some [200])),
      Unmarshal_headers = (\<lambda>s. Inr (Some []))\<rparr>"

definition example_monitor :: HttpMonitor where
  "example_monitor =
     \<lparr>ID = 1, Type = TypeHTTP, IntervalInt = 60000000000, Interval = 60000000000,
      Enabled = True, LastMonitorTime = 0, IsMonitoring = False,
      Address = ''https://example.com'', ValidStatusCodes = Some [200],
      ValidStatusCodesJSON = ''[200]'', ShouldWarnOnSSLExpiry = True, ShouldCheckSSL = False,
      ExpectedResponse = ''ok'', ShouldCheckResponse = True, ReqBody = [], ReqContentType = [],
      ReqHeaders = None, ReqHeadersJSON = [], RequestMethod = ''GET'',
      ReqTimeoutInt = 600000000000, ReqTimeout = 600000000000\<rparr>"

definition example_now :: Time where
  "example_now = 63900000000000000000"

definition example_world :: "string world" where
  "example_world =
     \<lparr>NewRequestWithContext = (\<lambda>method url body. Inr url),
      Header_Set = (\<lambda>req key val. req),
      url_Parse = (\<lambda>address. Inr ''example.com''),
      tls_Dial = (\<lambda>hostname. Inl ''dial tcp: connection refused''),
      client_Do = (\<lambda>timeout req. Inr \<lparr>StatusCode = 200, Body = Inr ''ok''\<rparr>),
      clock = (\<lambda>n. example_now)\<rparr>"

definition example_db :: GormDb where
  "example_db = \<lparr>http_monitors = [example_monitor], http_responses = []\<rparr>"

definition boundary_db :: GormDb where
  "boundary_db =
     \<lparr>http_monitors = [example_monitor\<lparr>LastMonitorTime := example_now - 60000000000\<rparr>],
      http_responses = []\<rparr>"

definition example_answers :: answers where
  "example_answers =
     \<lparr>lock_err = None, save_err = None, unlock_err = None, unlock_now = example_now\<rparr>"

text \<open>
  The answers of a database reached through a cancelled context: \<^verbatim>\<open>Lock\<close> was executed
  before the cancellation, \<^verbatim>\<open>SaveResult\<close> and \<^verbatim>\<open>Unlock\<close> are refused.
\<close>

definition cancelled_answers :: answers where
  "cancelled_answers =
     \<lparr>lock_err = None, save_err = Some ''context canceled'',
      unlock_err = Some ''context canceled'', unlock_now = example_now\<rparr>"

text \<open>
  Variants of the world: the connection is refused; the endpoint answers 500; it answers
  200 with the body \<open>fail\<close>; the TLS connection succeeds and the certificate expires ten
  days after the instant of the clock.
\<close>

definition refusing_world :: "string world" where
  "refusing_world =
     example_world\<lparr>client_Do := (\<lambda>timeout req. Inl ''dial tcp: connect: connection refused'')\<rparr>"

definition error500_world :: "string world" where
  "error500_world =
     example_world\<lparr>client_Do := (\<lambda>timeout req. Inr \<lparr>StatusCode = 500, Body = Inr []\<rparr>)\<rparr>"

definition wrong_body_world :: "string world" where
  "wrong_body_world =
     example_world\<lparr>client_Do := (\<lambda>timeout req. Inr \<lparr>StatusCode = 200, Body = Inr ''fail''\<rparr>)\<rparr>"

definition expiring_world :: "string world" where
  "expiring_world =
     example_world\<lparr>tls_Dial := (\<lambda>hostname. Inr (example_now + 864000000000000))\<rparr>"

section \<open>Properties of the persistence hooks\<close>

lemma sint_timeouts:
  "sint minHttpClientTimeout = 1000000000"
  "sint maxHttpClientTimeout = 300000000000"
  "sint defaultHttpClientTimeout = 30000000000"
  by (simp_all add: minHttpClientTimeout_def maxHttpClientTimeout_def
      defaultHttpClientTimeout_def Minute_def Second_def Millisecond_def Nanosecond_def)

lemma BeforeSave_timeout_range:
  "1000000000 \<le> sint (ReqTimeoutInt (BeforeSave_timeout hm)) \<and>
   sint (ReqTimeoutInt (BeforeSave_timeout hm)) \<le> 300000000000"
  by (simp add: BeforeSave_timeout_def Let_def word_sless_alt sint_timeouts)

lemma BeforeSave_timeout_value:
  "ReqTimeoutInt (BeforeSave_timeout hm) = ReqTimeout (BeforeSave_timeout hm) \<and>
   ReqTimeout (BeforeSave_timeout hm) =
     (if ReqTimeout hm = 0 then defaultHttpClientTimeout
      else if maxHttpClientTimeout <s ReqTimeout hm then maxHttpClientTimeout
      else if ReqTimeout hm <s minHttpClientTimeout then minHttpClientTimeout
      else ReqTimeout hm)"
  by (simp add: BeforeSave_timeout_def Let_def)

lemma AfterFind_timeout_range:
  "1000000000 \<le> sint (ReqTimeout (AfterFind_timeout hm)) \<and>
   sint (ReqTimeout (AfterFind_timeout hm)) \<le> 300000000000"
  by (simp add: AfterFind_timeout_def Let_def word_sless_alt sint_timeouts)

lemma BeforeSave_Inr:
  assumes "HttpMonitor_BeforeSave js hm = Inr hm'"
  shows "\<exists>h. hm' = BeforeSave_timeout h \<and> ReqTimeout h = ReqTimeout hm"
  using assms
  by (auto simp: HttpMonitor_BeforeSave_def BaseMonitor_BeforeSave_def
      split: sum.splits option.splits)

lemma AfterFind_Inr:
  assumes "HttpMonitor_AfterFind js hm = Inr hm'"
  shows "\<exists>h. hm' = AfterFind_timeout h \<and> ReqTimeoutInt h = ReqTimeoutInt hm"
  using assms
  by (auto simp: HttpMonitor_AfterFind_def BaseMonitor_AfterFind_def
      split: sum.splits option.splits if_splits)

lemma AfterFind_timeout_value:
  "ReqTimeoutInt (AfterFind_timeout hm) = ReqTimeoutInt hm \<and>
   ReqTimeout (AfterFind_timeout hm) =
     (if maxHttpClientTimeout <s ReqTimeoutInt hm then maxHttpClientTimeout
      else if ReqTimeoutInt hm <s minHttpClientTimeout then minHttpClientTimeout
      else ReqTimeoutInt hm)"
  by (simp add: AfterFind_timeout_def Let_def)

text \<open>
  Claim C5.  Whenever \<^verbatim>\<open>HttpMonitor.BeforeSave\<close> returns no error, the timeout it leaves in
  the monitor is the configured one clamped: 30 seconds for an unset (zero) timeout, 5
  minutes for a longer one, 1 second for a shorter one (a negative one too), the configured
  value otherwise; the persisted column \<^verbatim>\<open>ReqTimeoutInt\<close> is that value and lies between
  1 second and 300 seconds (in nanoseconds).  Whenever \<^verbatim>\<open>HttpMonitor.AfterFind\<close> returns
  no error, it leaves the stored column as it is and the timeout it reconstructs is the
  stored column clamped: 5 minutes for a longer one, 1 second for a shorter one, the stored
  value otherwise; it lies in the same range.
\<close>

theorem timeout_clamped_on_save_and_load:
  "(\<forall>hm'. HttpMonitor_BeforeSave js hm = Inr hm' \<longrightarrow>
      ReqTimeoutInt hm' = ReqTimeout hm' \<and>
      ReqTimeout hm' =
        (if ReqTimeout hm = 0 then defaultHttpClientTimeout
         else if maxHttpClientTimeout <s ReqTimeout hm then maxHttpClientTimeout
         else if ReqTimeout hm <s minHttpClientTimeout then minHttpClientTimeout
         else ReqTimeout hm) \<and>
      1000000000 \<le> sint (ReqTimeoutInt hm') \<and> sint (ReqTimeoutInt hm') \<le> 300000000000) \<and>
   (\<forall>hm'. HttpMonitor_AfterFind js hm = Inr hm' \<longrightarrow>
      ReqTimeoutInt hm' = ReqTimeoutInt hm \<and>
      ReqTimeout hm' =
        (if maxHttpClientTimeout <s ReqTimeoutInt hm then maxHttpClientTimeout
         else if ReqTimeoutInt hm <s minHttpClientTimeout then minHttpClientTimeout
         else ReqTimeoutInt hm) \<and>
      1000000000 \<le> sint (ReqTimeout hm') \<and> sint (ReqTimeout hm') \<le> 300000000000)"
proof (intro conjI allI impI)
  fix hm' assume "HttpMonitor_BeforeSave js hm = Inr hm'"
  then obtain h where h: "hm' = BeforeSave_timeout h" "ReqTimeout h = ReqTimeout hm"
    using BeforeSave_Inr by blast
  show "ReqTimeoutInt hm' = ReqTimeout hm'"
    using h BeforeSave_timeout_value [of h] by simp
  show "ReqTimeout hm' =
        (if ReqTimeout hm = 0 then defaultHttpClientTimeout
         else if maxHttpClientTimeout <s ReqTimeout hm then maxHttpClientTimeout
         else if ReqTimeout hm <s minHttpClientTimeout then minHttpClientTimeout
         else ReqTimeout hm)"
    using h BeforeSave_timeout_value [of h] by simp
  show "1000000000 \<le> sint (ReqTimeoutInt hm')"
    using h BeforeSave_timeout_range [of h] by simp
  show "sint (ReqTimeoutInt hm') \<le> 300000000000"
    using h BeforeSave_timeout_range [of h] by simp
next
  fix hm' assume "HttpMonitor_AfterFind js hm = Inr hm'"
  then obtain h where h: "hm' = AfterFind_timeout h" "ReqTimeoutInt h = ReqTimeoutInt hm"
    using AfterFind_Inr by blast
  show "ReqTimeoutInt hm' = ReqTimeoutInt hm"
    using h AfterFind_timeout_value [of h] by simp
  show "ReqTimeout hm' =
        (if maxHttpClientTimeout <s ReqTimeoutInt hm then maxHttpClientTimeout
         else if ReqTimeoutInt hm <s minHttpClientTimeout then minHttpClientTimeout
         else ReqTimeoutInt hm)"
    using h AfterFind_timeout_value [of h] by simp
  show "1000000000 \<le> sint (ReqTimeout hm')"
    using h AfterFind_timeout_range [of h] by simp
  show "sint (ReqTimeout hm') \<le> 300000000000"
    using h AfterFind_timeout_range [of h] by simp
qed

text \<open>
  The witness: ten minutes are saved as five; a stored column of ten minutes is loaded as
  five, and one of ten seconds as ten seconds (the repository's
  \<^verbatim>\<open>TestHttpMonitor_AfterFind\<close>).
\<close>

theorem timeout_clamped_witness:
  "(\<exists>hm'. HttpMonitor_BeforeSave example_json example_monitor = Inr hm' \<and>
          ReqTimeoutInt hm' = 300000000000 \<and>
          1000000000 \<le> sint (ReqTimeoutInt hm') \<and> sint (ReqTimeoutInt hm') \<le> 300000000000) \<and>
   (\<exists>hm'. HttpMonitor_AfterFind example_json example_monitor = Inr hm' \<and>
          ReqTimeoutInt hm' = 600000000000 \<and> ReqTimeout hm' = 300000000000 \<and>
          1000000000 \<le> sint (ReqTimeout hm') \<and> sint (ReqTimeout hm') \<le> 300000000000) \<and>
   (\<exists>hm'. HttpMonitor_AfterFind example_json (example_monitor\<lparr>ReqTimeoutInt := 10000000000\<rparr>) =
            Inr hm' \<and>
          ReqTimeoutInt hm' = 10000000000 \<and> ReqTimeout hm' = 10000000000)"
proof -
  let ?ten = "example_monitor\<lparr>ReqTimeoutInt := 10000000000\<rparr>"
  obtain s where s: "HttpMonitor_BeforeSave example_json example_monitor = Inr s"
    by (simp add: HttpMonitor_BeforeSave_def BaseMonitor_BeforeSave_def example_json_def
        example_monitor_def)
  obtain l where l: "HttpMonitor_AfterFind example_json example_monitor = Inr l"
    by (simp add: HttpMonitor_AfterFind_def BaseMonitor_AfterFind_def example_json_def
        example_monitor_def)
  obtain t where t: "HttpMonitor_AfterFind example_json ?ten = Inr t"
    by (simp add: HttpMonitor_AfterFind_def BaseMonitor_AfterFind_def example_json_def
        example_monitor_def)
  have big: "maxHttpClientTimeout <s ReqTimeout example_monitor" "ReqTimeout example_monitor \<noteq> 0"
    "maxHttpClientTimeout <s ReqTimeoutInt example_monitor"
    "ReqTimeoutInt example_monitor = 600000000000"
    by (simp_all add: example_monitor_def word_sless_alt sint_timeouts)
  have ten: "\<not> maxHttpClientTimeout <s ReqTimeoutInt ?ten"
    "\<not> ReqTimeoutInt ?ten <s minHttpClientTimeout" "ReqTimeoutInt ?ten = 10000000000"
    by (simp_all add: word_sless_alt sint_timeouts)
  have m: "maxHttpClientTimeout = 300000000000"
    by (simp add: maxHttpClientTimeout_def Minute_def Second_def Millisecond_def Nanosecond_def)
  note inst = timeout_clamped_on_save_and_load [of example_json example_monitor]
  note inst_ten = timeout_clamped_on_save_and_load [of example_json ?ten]
  from inst s big have "ReqTimeoutInt s = 300000000000"
    by (simp add: m)
  moreover from inst s
  have "1000000000 \<le> sint (ReqTimeoutInt s) \<and> sint (ReqTimeoutInt s) \<le> 300000000000"
    by blast
  moreover from inst l big
  have "ReqTimeoutInt l = 600000000000 \<and> ReqTimeout l = 300000000000"
    by (simp add: m)
  moreover from inst l
  have "1000000000 \<le> sint (ReqTimeout l) \<and> sint (ReqTimeout l) \<le> 300000000000"
    by blast
  moreover from inst_ten t ten
  have "ReqTimeoutInt t = 10000000000 \<and> ReqTimeout t = 10000000000"
    by simp
  ultimately show ?thesis using s l t by blast
qed

section \<open>Properties of the probe\<close>

lemma thirty_days: "(30 * 24 * Hour :: Duration) = 2592000000000000"
  by (simp add: Hour_def Minute_def Second_def Millisecond_def Nanosecond_def)

lemma Time_Sub_less_thirty_days:
  "Time_Sub t u <s 30 * 24 * Hour \<longleftrightarrow> t - u < 2592000000000000"
proof (cases "- 9223372036854775808 \<le> t - u \<and> t - u \<le> 9223372036854775807")
  case True
  have "sint (word_of_int x :: 64 word) = x"
    if "- 9223372036854775808 \<le> x" "x \<le> 9223372036854775807" for x :: int
    using that by (simp add: sint_sbintrunc' signed_take_bit_int_eq_self)
  with True have "sint (word_of_int (t - u) :: 64 word) = t - u"
    by blast
  moreover from True have "Time_Sub t u = word_of_int (t - u)"
    unfolding Time_Sub_def by (rule if_P)
  ultimately show ?thesis
    unfolding thirty_days by (simp add: word_sless_alt)
next
  case False
  then show ?thesis
    unfolding thirty_days
    by (auto simp: Time_Sub_def word_sless_alt minDuration_def maxDuration_def)
qed

lemma thirty_days_folded: "(720 * Hour :: Duration) = 2592000000000000"
  by (simp add: Hour_def Minute_def Second_def Millisecond_def Nanosecond_def)

lemma Time_Sub_less_thirty_days_folded:
  "Time_Sub t u <s 720 * Hour \<longleftrightarrow> t - u < 2592000000000000"
  using Time_Sub_less_thirty_days [of t u] by (simp add: thirty_days thirty_days_folded)

lemma Monitor_ssl_no_ReadAll: "IO_ReadAll \<notin> set (snd (Monitor_ssl w hm))"
  by (simp add: Monitor_ssl_def HttpMonitor_checkSSL_def Let_def split: sum.splits)

text \<open>
  Claim C10.  Whatever the monitor and whatever the network answers, the response that
  \<^verbatim>\<open>HttpMonitor.Monitor\<close> returns has \<^verbatim>\<open>DataValid\<close> false: the field keeps its zero
  value on every path, also when the body is validated and equals the expected string.
\<close>

theorem DataValid_never_set: "DataValid (fst (HttpMonitor_Monitor w hm)) = False"
  by (simp add: HttpMonitor_Monitor_def Monitor_outcome_def Let_def
      split: sum.splits prod.splits)

theorem DataValid_false_on_matching_body:
  "checks_passed example_world example_monitor \<and>
   ShouldCheckResponse example_monitor \<and>
   DataValid (fst (HttpMonitor_Monitor example_world example_monitor)) = False"
  using DataValid_never_set [of example_world example_monitor]
  by (simp add: checks_passed_def Monitor_request_def lo_Contains_def
        example_world_def example_monitor_def)

text \<open>
  Claim C9.  When the request was built and \<^verbatim>\<open>client.Do\<close> returns an error, the probe
  returns (it has no error result) a response with outcome \<^verbatim>\<open>Down\<close> whose message is
  the text of that error; nothing is done after the exchange: the status flag and the
  latency keep their zero values, the operations performed are those of the SSL sub-check
  followed by the exchange, and no body is read.
\<close>

theorem transport_error_is_Down:
  assumes "Monitor_request w hm = Inr req"
    and "client_Do w (ReqTimeout hm) req = Inl err"
  shows "Result (fst (HttpMonitor_Monitor w hm)) = ResultDown \<and>
         ErrorMsg (fst (HttpMonitor_Monitor w hm)) = err \<and>
         StatusCodeValid (fst (HttpMonitor_Monitor w hm)) = False \<and>
         Latency (fst (HttpMonitor_Monitor w hm)) = 0 \<and>
         snd (HttpMonitor_Monitor w hm) = snd (Monitor_ssl w hm) @ [IO_Do] \<and>
         IO_ReadAll \<notin> set (snd (HttpMonitor_Monitor w hm))"
  using assms Monitor_ssl_no_ReadAll [of w hm]
  by (simp add: HttpMonitor_Monitor_def Let_def split_beta)

theorem transport_error_witness:
  "Monitor_request refusing_world example_monitor = Inr ''https://example.com'' \<and>
   client_Do refusing_world (ReqTimeout example_monitor) ''https://example.com'' =
     Inl ''dial tcp: connect: connection refused'' \<and>
   Result (fst (HttpMonitor_Monitor refusing_world example_monitor)) = ResultDown \<and>
   ErrorMsg (fst (HttpMonitor_Monitor refusing_world example_monitor)) =
     ''dial tcp: connect: connection refused'' \<and>
   snd (HttpMonitor_Monitor refusing_world example_monitor) = [IO_TLSDial, IO_Do]"
proof -
  have req: "Monitor_request refusing_world example_monitor = Inr ''https://example.com''"
    by (simp add: Monitor_request_def refusing_world_def example_world_def example_monitor_def)
  have do: "client_Do refusing_world (ReqTimeout example_monitor) ''https://example.com'' =
      Inl ''dial tcp: connect: connection refused''"
    by (simp add: refusing_world_def example_world_def)
  have ssl: "snd (Monitor_ssl refusing_world example_monitor) = [IO_TLSDial]"
    by (simp add: Monitor_ssl_def HttpMonitor_checkSSL_def refusing_world_def example_world_def
        example_monitor_def)
  from transport_error_is_Down [OF req do] req do ssl show ?thesis
    by simp
qed

text \<open>
  Claim C7.  When the exchange returns a response, the status flag of the result is the
  membership of the status code in the accepted codes; a \<^verbatim>\<open>nil\<close> or empty list of
  accepted codes makes it false for every status code; and when it is false the outcome is
  \<^verbatim>\<open>Down\<close>, the exchange is the last operation performed, and no body is read.
\<close>

theorem status_code_validation:
  assumes "Monitor_request w hm = Inr req"
    and "client_Do w (ReqTimeout hm) req = Inr resp"
  shows "StatusCodeValid (fst (HttpMonitor_Monitor w hm)) =
           (case ValidStatusCodes hm of None \<Rightarrow> False | Some codes \<Rightarrow> StatusCode resp \<in> set codes) \<and>
         (ValidStatusCodes hm = None \<or> ValidStatusCodes hm = Some [] \<longrightarrow>
            \<not> StatusCodeValid (fst (HttpMonitor_Monitor w hm))) \<and>
         (\<not> StatusCodeValid (fst (HttpMonitor_Monitor w hm)) \<longrightarrow>
            Result (fst (HttpMonitor_Monitor w hm)) = ResultDown \<and>
            snd (HttpMonitor_Monitor w hm) = snd (Monitor_ssl w hm) @ [IO_Do] \<and>
            IO_ReadAll \<notin> set (snd (HttpMonitor_Monitor w hm)))"
  using assms Monitor_ssl_no_ReadAll [of w hm]
  by (auto simp: HttpMonitor_Monitor_def Monitor_outcome_def lo_Contains_def Let_def split_beta
      split: sum.splits option.splits)

theorem status_code_witness:
  "Monitor_request error500_world example_monitor = Inr ''https://example.com'' \<and>
   client_Do error500_world (ReqTimeout example_monitor) ''https://example.com'' =
     Inr \<lparr>StatusCode = 500, Body = Inr []\<rparr> \<and>
   \<not> StatusCodeValid (fst (HttpMonitor_Monitor error500_world example_monitor)) \<and>
   Result (fst (HttpMonitor_Monitor error500_world example_monitor)) = ResultDown \<and>
   snd (HttpMonitor_Monitor error500_world example_monitor) = [IO_TLSDial, IO_Do]"
proof -
  have req: "Monitor_request error500_world example_monitor = Inr ''https://example.com''"
    by (simp add: Monitor_request_def error500_world_def example_world_def example_monitor_def)
  have do: "client_Do error500_world (ReqTimeout example_monitor) ''https://example.com'' =
      Inr \<lparr>StatusCode = 500, Body = Inr []\<rparr>"
    by (simp add: error500_world_def example_world_def)
  have ssl: "snd (Monitor_ssl error500_world example_monitor) = [IO_TLSDial]"
    by (simp add: Monitor_ssl_def HttpMonitor_checkSSL_def error500_world_def example_world_def
        example_monitor_def)
  have codes: "ValidStatusCodes example_monitor = Some [200]"
    by (simp add: example_monitor_def)
  from status_code_validation [OF req do] req do ssl codes show ?thesis
    by simp
qed

text \<open>
  Claim C8.  When the status code was accepted and body validation is enabled, the probe
  reads the body, and if the read gives \<open>gotResp\<close>: the probe passes (outcome other than
  \<^verbatim>\<open>Down\<close>, empty message) exactly when \<open>gotResp\<close> equals the expected response, and
  otherwise the outcome is \<^verbatim>\<open>Down\<close> with the message
  \<open>response is not as expected: \<close> followed by \<open>gotResp\<close>.  (A read that fails gives
  \<^verbatim>\<open>Down\<close> with the text of the read error.)
\<close>

theorem body_validation:
  assumes "Monitor_request w hm = Inr req"
    and "client_Do w (ReqTimeout hm) req = Inr resp"
    and "lo_Contains (ValidStatusCodes hm) (StatusCode resp)"
    and "ShouldCheckResponse hm"
  shows "IO_ReadAll \<in> set (snd (HttpMonitor_Monitor w hm)) \<and>
         (\<forall>gotResp. Body resp = Inr gotResp \<longrightarrow>
            (if gotResp = ExpectedResponse hm
             then Result (fst (HttpMonitor_Monitor w hm)) \<noteq> ResultDown \<and>
                  ErrorMsg (fst (HttpMonitor_Monitor w hm)) = []
             else Result (fst (HttpMonitor_Monitor w hm)) = ResultDown \<and>
                  ErrorMsg (fst (HttpMonitor_Monitor w hm)) =
                    ''response is not as expected: '' @ gotResp)) \<and>
         (\<forall>err. Body resp = Inl err \<longrightarrow>
            Result (fst (HttpMonitor_Monitor w hm)) = ResultDown \<and>
            ErrorMsg (fst (HttpMonitor_Monitor w hm)) = err)"
  using assms
  by (auto simp: HttpMonitor_Monitor_def Monitor_outcome_def Let_def split_beta
      split: sum.splits)

theorem body_validation_witness:
  "Monitor_request wrong_body_world example_monitor = Inr ''https://example.com'' \<and>
   client_Do wrong_body_world (ReqTimeout example_monitor) ''https://example.com'' =
     Inr \<lparr>StatusCode = 200, Body = Inr ''fail''\<rparr> \<and>
   lo_Contains (ValidStatusCodes example_monitor) 200 \<and>
   ShouldCheckResponse example_monitor \<and>
   ExpectedResponse example_monitor = ''ok'' \<and>
   Result (fst (HttpMonitor_Monitor wrong_body_world example_monitor)) = ResultDown \<and>
   ErrorMsg (fst (HttpMonitor_Monitor wrong_body_world example_monitor)) =
     ''response is not as expected: fail''"
proof -
  have req: "Monitor_request wrong_body_world example_monitor = Inr ''https://example.com''"
    by (simp add: Monitor_request_def wrong_body_world_def example_world_def example_monitor_def)
  have do: "client_Do wrong_body_world (ReqTimeout example_monitor) ''https://example.com'' =
      Inr \<lparr>StatusCode = 200, Body = Inr ''fail''\<rparr>"
    by (simp add: wrong_body_world_def example_world_def)
  have ok: "lo_Contains (ValidStatusCodes example_monitor)
      (StatusCode \<lparr>StatusCode = 200, Body = Inr ''fail''\<rparr>)"
    by (simp add: lo_Contains_def example_monitor_def)
  have chk: "ShouldCheckResponse example_monitor" and ex: "ExpectedResponse example_monitor = ''ok''"
    by (simp_all add: example_monitor_def)
  from body_validation [OF req do ok chk] req do ok chk ex show ?thesis
    by simp
qed

lemma Monitor_ssl_zero_expiry:
  "Valid (fst (Monitor_ssl w hm)) \<or> Expiry (fst (Monitor_ssl w hm)) = 0"
  by (simp add: Monitor_ssl_def HttpMonitor_checkSSL_def Let_def split: sum.splits)

lemma Monitor_SslResp:
  "SslResp (fst (HttpMonitor_Monitor w hm)) =
     (case Monitor_request w hm of
        Inl err \<Rightarrow> \<lparr>Valid = False, Expiry = 0\<rparr>
      | Inr req \<Rightarrow> fst (Monitor_ssl w hm))"
  by (simp add: HttpMonitor_Monitor_def Monitor_outcome_def Let_def split_beta
      split: sum.splits)

lemma Monitor_Result_cases:
  "Result (fst (HttpMonitor_Monitor w hm)) =
     (if checks_passed w hm
      then (if ShouldWarnOnSSLExpiry hm \<and>
               Time_Sub (Expiry (fst (Monitor_ssl w hm))) (clock w 3) <s 30 * 24 * Hour
            then ResultWarn else ResultUp)
      else ResultDown)"
  by (auto simp: HttpMonitor_Monitor_def Monitor_outcome_def checks_passed_def Let_def split_beta
      split: sum.splits)

lemma Monitor_ssl_value:
  "fst (Monitor_ssl w hm) =
     (if ShouldCheckSSL hm \<or> ShouldWarnOnSSLExpiry hm
      then (case url_Parse w (Address hm) of
              Inl err \<Rightarrow> \<lparr>Valid = False, Expiry = 0\<rparr>
            | Inr host \<Rightarrow>
                (case tls_Dial w (if CHR '':'' \<in> set host then host else host @ '':443'') of
                   Inl err \<Rightarrow> \<lparr>Valid = False, Expiry = 0\<rparr>
                 | Inr notAfter \<Rightarrow> \<lparr>Valid = True, Expiry = notAfter\<rparr>))
      else \<lparr>Valid = False, Expiry = 0\<rparr>)"
  by (simp add: Monitor_ssl_def HttpMonitor_checkSSL_def Let_def split: sum.splits)

text \<open>
  Claim C2, as amended.  The outcome is \<^verbatim>\<open>Warn\<close> if and only if every other check
  passed, the SSL-expiry-warning flag is set and the recorded expiry is less than 30 days
  (2592000000000000 nanoseconds) after the clock; it is \<^verbatim>\<open>Up\<close> in every other passing
  case.  The recorded expiry is the \<^verbatim>\<open>NotAfter\<close> of the certificate that the TLS
  connection to the host of the address (port 443 when the host names none) presents, with
  the validity flag true, when the sub-check runs and succeeds; it is the zero time, with
  the flag false, when the sub-check fails (the URL does not parse, the connection fails)
  or does not run: the validity found by the sub-check is not consulted.
\<close>

theorem Warn_iff_expiry_within_thirty_days:
  "(Result (fst (HttpMonitor_Monitor w hm)) = ResultWarn \<longleftrightarrow>
      checks_passed w hm \<and> ShouldWarnOnSSLExpiry hm \<and>
      Expiry (SslResp (fst (HttpMonitor_Monitor w hm))) - clock w 3 < 2592000000000000) \<and>
   (Result (fst (HttpMonitor_Monitor w hm)) = ResultUp \<longleftrightarrow>
      checks_passed w hm \<and>
      \<not> (ShouldWarnOnSSLExpiry hm \<and>
         Expiry (SslResp (fst (HttpMonitor_Monitor w hm))) - clock w 3 < 2592000000000000)) \<and>
   (Valid (SslResp (fst (HttpMonitor_Monitor w hm))) \<or>
      Expiry (SslResp (fst (HttpMonitor_Monitor w hm))) = 0) \<and>
   SslResp (fst (HttpMonitor_Monitor w hm)) =
     (case Monitor_request w hm of
        Inl err \<Rightarrow> \<lparr>Valid = False, Expiry = 0\<rparr>
      | Inr req \<Rightarrow>
          if ShouldCheckSSL hm \<or> ShouldWarnOnSSLExpiry hm
          then (case url_Parse w (Address hm) of
                  Inl err \<Rightarrow> \<lparr>Valid = False, Expiry = 0\<rparr>
                | Inr host \<Rightarrow>
                    (case tls_Dial w (if CHR '':'' \<in> set host then host else host @ '':443'') of
                       Inl err \<Rightarrow> \<lparr>Valid = False, Expiry = 0\<rparr>
                     | Inr notAfter \<Rightarrow> \<lparr>Valid = True, Expiry = notAfter\<rparr>))
          else \<lparr>Valid = False, Expiry = 0\<rparr>)"
proof -
  let ?r = "fst (HttpMonitor_Monitor w hm)"
  have ssl: "checks_passed w hm \<Longrightarrow> SslResp ?r = fst (Monitor_ssl w hm)"
    by (simp add: Monitor_SslResp checks_passed_def split: sum.splits)
  have zero: "Valid (SslResp ?r) \<or> Expiry (SslResp ?r) = 0"
    using Monitor_ssl_zero_expiry [of w hm]
    by (simp add: Monitor_SslResp split: sum.splits)
  have val: "SslResp ?r =
     (case Monitor_request w hm of
        Inl err \<Rightarrow> \<lparr>Valid = False, Expiry = 0\<rparr>
      | Inr req \<Rightarrow>
          if ShouldCheckSSL hm \<or> ShouldWarnOnSSLExpiry hm
          then (case url_Parse w (Address hm) of
                  Inl err \<Rightarrow> \<lparr>Valid = False, Expiry = 0\<rparr>
                | Inr host \<Rightarrow>
                    (case tls_Dial w (if CHR '':'' \<in> set host then host else host @ '':443'') of
                       Inl err \<Rightarrow> \<lparr>Valid = False, Expiry = 0\<rparr>
                     | Inr notAfter \<Rightarrow> \<lparr>Valid = True, Expiry = notAfter\<rparr>))
          else \<lparr>Valid = False, Expiry = 0\<rparr>)"
    unfolding Monitor_SslResp Monitor_ssl_value ..
  have iffs: "(Result ?r = ResultWarn \<longleftrightarrow>
      checks_passed w hm \<and> ShouldWarnOnSSLExpiry hm \<and>
      Expiry (SslResp ?r) - clock w 3 < 2592000000000000) \<and>
   (Result ?r = ResultUp \<longleftrightarrow>
      checks_passed w hm \<and>
      \<not> (ShouldWarnOnSSLExpiry hm \<and> Expiry (SslResp ?r) - clock w 3 < 2592000000000000))"
  proof (cases "checks_passed w hm")
    case True
    then show ?thesis
      using ssl by (simp add: Monitor_Result_cases Time_Sub_less_thirty_days_folded)
  next
    case False
    then show ?thesis
      by (simp add: Monitor_Result_cases)
  qed
  from iffs zero val show ?thesis
    by (intro conjI) (rule conjunct1, assumption, rule conjunct2, assumption, assumption+)
qed

theorem Warn_witness:
  "checks_passed expiring_world example_monitor \<and>
   ShouldWarnOnSSLExpiry example_monitor \<and>
   SslResp (fst (HttpMonitor_Monitor expiring_world example_monitor)) =
     \<lparr>Valid = True, Expiry = example_now + 864000000000000\<rparr> \<and>
   clock expiring_world 3 = example_now \<and>
   Result (fst (HttpMonitor_Monitor expiring_world example_monitor)) = ResultWarn"
proof -
  have pass: "checks_passed expiring_world example_monitor"
    by (simp add: checks_passed_def Monitor_request_def lo_Contains_def expiring_world_def
        example_world_def example_monitor_def)
  have flag: "ShouldWarnOnSSLExpiry example_monitor"
    by (simp add: example_monitor_def)
  have ssl: "SslResp (fst (HttpMonitor_Monitor expiring_world example_monitor)) =
      \<lparr>Valid = True, Expiry = example_now + 864000000000000\<rparr>"
    by (simp add: Monitor_SslResp Monitor_request_def Monitor_ssl_def HttpMonitor_checkSSL_def
        expiring_world_def example_world_def example_monitor_def)
  have clk: "clock expiring_world 3 = example_now"
    by (simp add: expiring_world_def example_world_def)
  from Warn_iff_expiry_within_thirty_days [of expiring_world example_monitor] pass flag ssl clk
  show ?thesis by simp
qed

text \<open>
  Claim C2 as stated fails: in the example world the TLS connection is refused, the
  sub-check records an invalid certificate, every other check passes, and the outcome is
  \<^verbatim>\<open>Warn\<close>.
\<close>

theorem Warn_with_invalid_certificate:
  "Result (fst (HttpMonitor_Monitor example_world example_monitor)) = ResultWarn \<and>
   \<not> Valid (SslResp (fst (HttpMonitor_Monitor example_world example_monitor))) \<and>
   checks_passed example_world example_monitor \<and>
   \<not> (Result (fst (HttpMonitor_Monitor example_world example_monitor)) = ResultWarn \<longleftrightarrow>
        ShouldWarnOnSSLExpiry example_monitor \<and>
        Valid (SslResp (fst (HttpMonitor_Monitor example_world example_monitor))) \<and>
        Expiry (SslResp (fst (HttpMonitor_Monitor example_world example_monitor))) -
          clock example_world 3 < 2592000000000000 \<and>
        checks_passed example_world example_monitor)"
  by (simp add: HttpMonitor_Monitor_def Monitor_outcome_def Monitor_request_def Monitor_ssl_def
      HttpMonitor_checkSSL_def checks_passed_def lo_Contains_def Time_Sub_def minDuration_def
      example_world_def example_monitor_def example_now_def Let_def word_sless_alt
      thirty_days_folded)

section \<open>Properties of the store and of the work unit\<close>

lemma filter_empty_iff_stored:
  "(length (filter (\<lambda>r. ID r = ID mon) (http_monitors db)) = 0) = (\<not> stored db mon)"
  by (auto simp: stored_def filter_empty_conv)

text \<open>
  Claim C1, as amended.  When the database executes the statement, \<^verbatim>\<open>Lock\<close> succeeds if
  and only if a row has the identifier of the monitor, whatever the in-flight flag of that
  row; it sets the flag of every such row and changes nothing else; its only failure is
  then the error \<open>monitor with ID n not found\<close>.  When the statement fails, its error is
  returned and the rows are unchanged.
\<close>

theorem Lock_succeeds_iff_stored:
  "(snd (GormDb_Lock db None mon) = None \<longleftrightarrow> stored db mon) \<and>
   fst (GormDb_Lock db None mon) =
     db\<lparr>http_monitors :=
          map (\<lambda>r. if ID r = ID mon then r\<lparr>IsMonitoring := True\<rparr> else r) (http_monitors db)\<rparr> \<and>
   (snd (GormDb_Lock db None mon) = None \<or>
    snd (GormDb_Lock db None mon) =
      Some (''monitor with ID '' @ string_of_nat (ID mon) @ '' not found'')) \<and>
   GormDb_Lock db (Some err) mon = (db, Some err)"
  using filter_empty_iff_stored [of mon db]
  by (simp add: GormDb_Lock_def gorm_Updates_def Let_def del: length_0_conv)

theorem Lock_witness:
  "stored example_db example_monitor \<and>
   snd (GormDb_Lock example_db None example_monitor) = None \<and>
   map IsMonitoring (http_monitors (fst (GormDb_Lock example_db None example_monitor))) = [True] \<and>
   \<not> stored (example_db\<lparr>http_monitors := []\<rparr>) example_monitor \<and>
   snd (GormDb_Lock (example_db\<lparr>http_monitors := []\<rparr>) None example_monitor) =
     Some ''monitor with ID 1 not found''"
proof -
  have st: "stored example_db example_monitor"
    by (simp add: stored_def example_db_def)
  have nst: "\<not> stored (example_db\<lparr>http_monitors := []\<rparr>) example_monitor"
    by (simp add: stored_def)
  have one: "string_of_nat (Suc 0) = ''1''"
    by code_simp
  have msg: "''monitor with ID '' @ string_of_nat (ID example_monitor) @ '' not found'' =
      ''monitor with ID 1 not found''"
    by (simp add: example_monitor_def one del: string_of_nat.simps)
  have rows: "http_monitors example_db = [example_monitor]"
    by (simp add: example_db_def)
  note a = Lock_succeeds_iff_stored [of example_db example_monitor]
  note b = Lock_succeeds_iff_stored [of "example_db\<lparr>http_monitors := []\<rparr>" example_monitor]
  from a st have 1: "snd (GormDb_Lock example_db None example_monitor) = None"
    by blast
  from a have 2: "map IsMonitoring (http_monitors (fst (GormDb_Lock example_db None example_monitor))) = [True]"
    by (simp add: rows)
  from b nst have 3: "snd (GormDb_Lock (example_db\<lparr>http_monitors := []\<rparr>) None example_monitor) =
     Some ''monitor with ID 1 not found''"
    unfolding msg by blast
  from st 1 2 nst 3 show ?thesis by blast
qed

text \<open>
  Claim C1 as stated fails: a second \<^verbatim>\<open>Lock\<close> of the stored example monitor succeeds
  while the flag set by the first is still set, so two successful claims are outstanding.
  The revision of \<^verbatim>\<open>Lock\<close> in \<^verbatim>\<open>src/unnamed/part_001\<close> does the same.
\<close>

theorem Lock_succeeds_twice:
  "snd (GormDb_Lock example_db None example_monitor) = None \<and>
   map IsMonitoring (http_monitors (fst (GormDb_Lock example_db None example_monitor))) = [True] \<and>
   snd (GormDb_Lock (fst (GormDb_Lock example_db None example_monitor)) None example_monitor) = None \<and>
   snd (GormDb_Lock_part_001 (fst (GormDb_Lock_part_001 example_db None example_monitor)) None
          example_monitor) = None"
  by (simp add: GormDb_Lock_def GormDb_Lock_part_001_def gorm_Updates_def Let_def example_db_def
      example_monitor_def)

lemma AfterFind_columns:
  assumes "HttpMonitor_AfterFind js (scan_row r) = Inr m"
  shows "ID m = ID r \<and> Enabled m = Enabled r \<and> IsMonitoring m = IsMonitoring r \<and>
         LastMonitorTime m = LastMonitorTime r \<and> IntervalInt m = IntervalInt r \<and>
         Interval m = IntervalInt r"
  using assms
  by (auto simp: HttpMonitor_AfterFind_def BaseMonitor_AfterFind_def AfterFind_timeout_def
      scan_row_def Let_def split: sum.splits if_splits)

lemma AfterFind_rows_all2:
  "AfterFind_rows js rs = Inr ms \<Longrightarrow>
   list_all2 (\<lambda>r m. HttpMonitor_AfterFind js (scan_row r) = Inr m) rs ms"
  by (induction rs arbitrary: ms) (auto split: sum.splits)

lemma foldl_append_filter:
  "foldl (\<lambda>results mon. if P mon then results @ [mon] else results) acc ms = acc @ filter P ms"
  by (induction ms arbitrary: acc) auto

lemma list_all2_filter_same:
  assumes "list_all2 R xs ys" and "\<And>x y. R x y \<Longrightarrow> P x = Q y"
  shows "list_all2 R (filter P xs) (filter Q ys)"
  using assms by (induction rule: list_all2_induct) auto

lemma list_all2_right_witness:
  "list_all2 R xs ys \<Longrightarrow> y \<in> set ys \<Longrightarrow> \<exists>x \<in> set xs. R x y"
  by (induction rule: list_all2_induct) auto

text \<open>
  Claim C4, as amended.  When \<^verbatim>\<open>GetMonitorsToRun\<close> returns monitors, they are, in the
  order of the table, the rows that are enabled, not in flight and whose last run plus
  interval is strictly before the query time, each one as \<^verbatim>\<open>AfterFind\<close> loads it; so
  every returned monitor is enabled, not in flight and strictly overdue.
\<close>

theorem GetMonitorsToRun_strictly_due:
  assumes "GormDb_GetMonitorsToRun js db stmt_err nowTime = Inr results"
  shows "list_all2 (\<lambda>r m. HttpMonitor_AfterFind js (scan_row r) = Inr m)
           (filter (\<lambda>r. Enabled r \<and> \<not> IsMonitoring r \<and>
                         LastMonitorTime r + sint (IntervalInt r) < nowTime)
              (http_monitors db))
           results \<and>
         (\<forall>m \<in> set results.
            Enabled m \<and> \<not> IsMonitoring m \<and> LastMonitorTime m + sint (Interval m) < nowTime)"
proof -
  let ?sel = "filter (\<lambda>r. Enabled r = True \<and> IsMonitoring r = False) (http_monitors db)"
  let ?late = "\<lambda>m. Time_Before (Time_Add (LastMonitorTime m) (Interval m)) nowTime"
  let ?R = "\<lambda>r m. HttpMonitor_AfterFind js (scan_row r) = Inr m"
  from assms obtain monitors where
    found: "AfterFind_rows js ?sel = Inr monitors" and
    res: "results = filter ?late monitors"
    by (auto simp: GormDb_GetMonitorsToRun_def gorm_Find_def foldl_append_filter
        split: sum.splits option.splits)
  have all2: "list_all2 ?R ?sel monitors"
    using found by (rule AfterFind_rows_all2)
  have same: "(LastMonitorTime r + sint (IntervalInt r) < nowTime) = ?late m" if "?R r m" for r m
    using AfterFind_columns [OF that] by (simp add: Time_Before_def Time_Add_def)
  have "list_all2 ?R (filter (\<lambda>r. LastMonitorTime r + sint (IntervalInt r) < nowTime) ?sel)
          (filter ?late monitors)"
    using all2 same by (rule list_all2_filter_same)
  then have first: "list_all2 ?R
      (filter (\<lambda>r. Enabled r \<and> \<not> IsMonitoring r \<and>
                    LastMonitorTime r + sint (IntervalInt r) < nowTime) (http_monitors db))
      results"
    by (simp add: res conj_commute conj_left_commute cong: conj_cong)
  have "Enabled m \<and> \<not> IsMonitoring m" if "m \<in> set monitors" for m
  proof -
    from list_all2_right_witness [OF all2 that]
    obtain r where "r \<in> set ?sel" "?R r m"
      by blast
    then show ?thesis using AfterFind_columns [of js r m] by simp
  qed
  then have second: "\<forall>m \<in> set results.
      Enabled m \<and> \<not> IsMonitoring m \<and> LastMonitorTime m + sint (Interval m) < nowTime"
    by (auto simp: res Time_Before_def Time_Add_def)
  from first second show ?thesis by blast
qed

theorem GetMonitorsToRun_witness:
  "\<exists>m. GormDb_GetMonitorsToRun example_json example_db None 60000000001 = Inr [m] \<and>
       HttpMonitor_AfterFind example_json (scan_row example_monitor) = Inr m \<and>
       Enabled m \<and> \<not> IsMonitoring m \<and> LastMonitorTime m + sint (Interval m) < 60000000001"
proof -
  obtain m where m: "HttpMonitor_AfterFind example_json (scan_row example_monitor) = Inr m"
    by (simp add: HttpMonitor_AfterFind_def BaseMonitor_AfterFind_def scan_row_def
        example_json_def example_monitor_def)
  have cols: "Enabled m \<and> \<not> IsMonitoring m \<and> LastMonitorTime m = 0 \<and> Interval m = 60000000000"
    using AfterFind_columns [OF m] by (simp add: example_monitor_def)
  have sel: "filter (\<lambda>r. Enabled r \<and> \<not> IsMonitoring r) (http_monitors example_db) =
      [example_monitor]"
    by (simp add: example_db_def example_monitor_def)
  have run: "GormDb_GetMonitorsToRun example_json example_db None 60000000001 = Inr [m]"
    using cols
    by (simp add: GormDb_GetMonitorsToRun_def gorm_Find_def sel m Time_Before_def Time_Add_def)
  from GetMonitorsToRun_strictly_due [OF run] m run show ?thesis
    by simp
qed

text \<open>
  Claim C4 as stated fails at the boundary: the monitor of \<open>boundary_db\<close>, whose last run
  is exactly its interval of 60 seconds before the query time, is due in the
  specification's sense, and is not returned.
\<close>

theorem GetMonitorsToRun_skips_monitor_due_now:
  "map (spec_due example_now) (http_monitors boundary_db) = [True] \<and>
   GormDb_GetMonitorsToRun example_json boundary_db None example_now = Inr []"
  by (simp add: spec_due_def GormDb_GetMonitorsToRun_def gorm_Find_def scan_row_def
      HttpMonitor_AfterFind_def BaseMonitor_AfterFind_def AfterFind_timeout_def Let_def
      Time_Before_def Time_Add_def boundary_db_def example_monitor_def example_json_def
      example_now_def)

lemma upd_has:
  assumes "r0 \<in> set rows" "ID r0 = ID (mon::HttpMonitor)"
  shows "\<exists>r \<in> set (map (\<lambda>r::HttpMonitor. if ID r = ID mon then r\<lparr>IsMonitoring := False, LastMonitorTime := t\<rparr> else r) rows). ID r = ID mon"
proof -
  let ?f = "\<lambda>r::HttpMonitor. if ID r = ID mon then r\<lparr>IsMonitoring := False, LastMonitorTime := t\<rparr> else r"
  have a: "?f r0 \<in> set (map ?f rows)"
    using assms(1) by (simp only: set_map) (rule imageI)
  have b: "ID (?f r0) = ID mon"
    using assms(2) by simp
  from a b show ?thesis by (rule rev_bexI)
qed

lemma upd_all:
  "\<forall>r \<in> set (map (\<lambda>r::HttpMonitor. if ID r = ID mon then r\<lparr>IsMonitoring := False, LastMonitorTime := t\<rparr> else r) rows).
     ID r = ID (mon::HttpMonitor) \<longrightarrow> \<not> IsMonitoring r \<and> LastMonitorTime r = t"
proof (intro ballI impI)
  let ?f = "\<lambda>r::HttpMonitor. if ID r = ID mon then r\<lparr>IsMonitoring := False, LastMonitorTime := t\<rparr> else r"
  fix r assume "r \<in> set (map ?f rows)" and i: "ID r = ID mon"
  then obtain x where x: "r = ?f x"
    by (auto simp only: set_map)
  show "\<not> IsMonitoring r \<and> LastMonitorTime r = t"
  proof (cases "ID x = ID mon")
    case True
    with x show ?thesis by simp
  next
    case False
    with x i show ?thesis by simp
  qed
qed


lemma lock_has:
  assumes "r0 \<in> set rows" "ID r0 = ID (mon::HttpMonitor)"
  shows "\<exists>r \<in> set (map (\<lambda>r::HttpMonitor. if ID r = ID mon then r\<lparr>IsMonitoring := True\<rparr> else r)
                       rows). ID r = ID mon"
proof -
  let ?f = "\<lambda>r::HttpMonitor. if ID r = ID mon then r\<lparr>IsMonitoring := True\<rparr> else r"
  have a: "?f r0 \<in> set (map ?f rows)"
    using assms(1) by (simp only: set_map) (rule imageI)
  have b: "ID (?f r0) = ID mon"
    using assms(2) by simp
  from a b show ?thesis by (rule rev_bexI)
qed

lemma lock_all:
  "\<forall>r \<in> set (map (\<lambda>r::HttpMonitor. if ID r = ID mon then r\<lparr>IsMonitoring := True\<rparr> else r) rows).
     ID r = ID (mon::HttpMonitor) \<longrightarrow> IsMonitoring r"
proof (intro ballI impI)
  let ?f = "\<lambda>r::HttpMonitor. if ID r = ID mon then r\<lparr>IsMonitoring := True\<rparr> else r"
  fix r assume "r \<in> set (map ?f rows)" and i: "ID r = ID mon"
  then obtain x where x: "r = ?f x"
    by (auto simp only: set_map)
  show "IsMonitoring r"
  proof (cases "ID x = ID mon")
    case True
    with x show ?thesis by simp
  next
    case False
    with x i show ?thesis by simp
  qed
qed

lemma Unlock_effect:
  "fst (GormDb_Unlock d None now mon) =
     d\<lparr>http_monitors :=
         map (\<lambda>r. if ID r = ID mon then r\<lparr>IsMonitoring := False, LastMonitorTime := now\<rparr> else r)
           (http_monitors d)\<rparr>"
  by (simp add: GormDb_Unlock_def gorm_Updates_def Let_def)

lemma Unlock_failed: "fst (GormDb_Unlock d (Some err) now mon) = d"
  by (simp add: GormDb_Unlock_def)

lemma Lock_Some_None:
  "GormDb_Lock db e mon = (db1, None) \<Longrightarrow>
   e = None \<and> db1 = db\<lparr>http_monitors :=
          map (\<lambda>r. if ID r = ID mon then r\<lparr>IsMonitoring := True\<rparr> else r) (http_monitors db)\<rparr>
   \<and> stored db mon"
  using filter_empty_iff_stored [of mon db]
  by (auto simp: GormDb_Lock_def gorm_Updates_def Let_def split: option.splits if_splits
      simp del: length_0_conv)

text \<open>
  Claim C3, as amended.  After a successful \<^verbatim>\<open>Lock\<close>, whatever the probe does (it
  returns any result, or panics) and whether or not saving the result fails, the work unit
  calls \<^verbatim>\<open>Unlock\<close> once, as its last call to the store.  When the database executes that
  statement, the rows of the monitor have the in-flight flag false and the last run time
  set to the time \<^verbatim>\<open>Unlock\<close> read, every other row being as before the work unit;
  \<^verbatim>\<open>Unlock\<close> itself sets both columns in the one statement.  When the database refuses
  the statement, the error is only logged: the rows are as \<^verbatim>\<open>Lock\<close> left them, the flag
  of the monitor still set.
\<close>

theorem work_always_unlocks:
  assumes "snd (GormDb_Lock db (lock_err a) mon) = None"
  shows "(case Manager_work db a Monitor mon of
            (db', calls, ending) \<Rightarrow>
              calls = Call_Lock #
                (case Monitor mon of None \<Rightarrow> [] | Some result \<Rightarrow> [Call_SaveResult]) @ [Call_Unlock] \<and>
              ending = (case Monitor mon of None \<Rightarrow> Panic | Some result \<Rightarrow> Return (save_err a)) \<and>
              (unlock_err a = None \<longrightarrow>
                 http_monitors db' =
                   map (\<lambda>r. if ID r = ID mon
                             then r\<lparr>IsMonitoring := False, LastMonitorTime := unlock_now a\<rparr>
                             else r)
                     (http_monitors db) \<and>
                 (\<exists>r \<in> set (http_monitors db'). ID r = ID mon) \<and>
                 (\<forall>r \<in> set (http_monitors db'). ID r = ID mon \<longrightarrow>
                    \<not> IsMonitoring r \<and> LastMonitorTime r = unlock_now a)) \<and>
              (unlock_err a \<noteq> None \<longrightarrow>
                 http_monitors db' =
                   map (\<lambda>r. if ID r = ID mon then r\<lparr>IsMonitoring := True\<rparr> else r)
                     (http_monitors db) \<and>
                 (\<exists>r \<in> set (http_monitors db'). ID r = ID mon) \<and>
                 (\<forall>r \<in> set (http_monitors db'). ID r = ID mon \<longrightarrow> IsMonitoring r))) \<and>
         fst (GormDb_Unlock d None now mon) =
           d\<lparr>http_monitors :=
               map (\<lambda>r. if ID r = ID mon then r\<lparr>IsMonitoring := False, LastMonitorTime := now\<rparr>
                         else r)
                 (http_monitors d)\<rparr>"
proof -
  obtain db1 where l: "GormDb_Lock db (lock_err a) mon = (db1, None)"
    using assms by (cases "GormDb_Lock db (lock_err a) mon") simp
  note L = Lock_Some_None [OF l]
  have m1: "http_monitors db1 =
      map (\<lambda>r. if ID r = ID mon then r\<lparr>IsMonitoring := True\<rparr> else r) (http_monitors db)"
    using L by simp
  have save: "http_monitors (fst (GormDb_SaveResult db1 e res)) = http_monitors db1" for e res
    by (simp add: GormDb_SaveResult_def split: option.splits)
  have un: "http_monitors (deferred_Unlock d' a mon) =
      map (\<lambda>r. if ID r = ID mon then r\<lparr>IsMonitoring := False, LastMonitorTime := unlock_now a\<rparr>
                else r) (http_monitors db)"
    if "unlock_err a = None" "http_monitors d' = http_monitors db1" for d'
    using that by (simp add: deferred_Unlock_def Unlock_effect m1 o_def cong: if_cong)
  let ?upd = "map (\<lambda>r. if ID r = ID mon
                          then r\<lparr>IsMonitoring := False, LastMonitorTime := unlock_now a\<rparr>
                          else r) (http_monitors db)"
  obtain r0 where r0: "r0 \<in> set (http_monitors db)" "ID r0 = ID mon"
    using L by (auto simp: stored_def)
  have ex: "\<exists>r \<in> set ?upd. ID r = ID mon"
    using r0 by (rule upd_has)
  have al: "\<forall>r \<in> set ?upd. ID r = ID mon \<longrightarrow> \<not> IsMonitoring r \<and> LastMonitorTime r = unlock_now a"
    by (rule upd_all)
  have fin: "unlock_err a = None \<longrightarrow>
      http_monitors (deferred_Unlock d' a mon) = ?upd \<and>
      (\<exists>r \<in> set (http_monitors (deferred_Unlock d' a mon)). ID r = ID mon) \<and>
      (\<forall>r \<in> set (http_monitors (deferred_Unlock d' a mon)). ID r = ID mon \<longrightarrow>
          \<not> IsMonitoring r \<and> LastMonitorTime r = unlock_now a)"
    if d': "http_monitors d' = http_monitors db1" for d'
  proof
    assume u: "unlock_err a = None"
    have e: "http_monitors (deferred_Unlock d' a mon) = ?upd"
      using un [OF u d'] .
    show "http_monitors (deferred_Unlock d' a mon) = ?upd \<and>
      (\<exists>r \<in> set (http_monitors (deferred_Unlock d' a mon)). ID r = ID mon) \<and>
      (\<forall>r \<in> set (http_monitors (deferred_Unlock d' a mon)). ID r = ID mon \<longrightarrow>
          \<not> IsMonitoring r \<and> LastMonitorTime r = unlock_now a)"
      unfolding e by (intro conjI refl ex al)
  qed
  let ?lk = "map (\<lambda>r. if ID r = ID mon then r\<lparr>IsMonitoring := True\<rparr> else r) (http_monitors db)"
  have exl: "\<exists>r \<in> set ?lk. ID r = ID mon"
    using r0 by (rule lock_has)
  have all: "\<forall>r \<in> set ?lk. ID r = ID mon \<longrightarrow> IsMonitoring r"
    by (rule lock_all)
  have refused: "unlock_err a \<noteq> None \<longrightarrow>
      http_monitors (deferred_Unlock d' a mon) = ?lk \<and>
      (\<exists>r \<in> set (http_monitors (deferred_Unlock d' a mon)). ID r = ID mon) \<and>
      (\<forall>r \<in> set (http_monitors (deferred_Unlock d' a mon)). ID r = ID mon \<longrightarrow> IsMonitoring r)"
    if d': "http_monitors d' = http_monitors db1" for d'
  proof
    assume "unlock_err a \<noteq> None"
    then obtain err where "unlock_err a = Some err"
      by blast
    then have "deferred_Unlock d' a mon = d'"
      by (simp add: deferred_Unlock_def Unlock_failed)
    then have e: "http_monitors (deferred_Unlock d' a mon) = ?lk"
      using d' m1 by simp
    show "http_monitors (deferred_Unlock d' a mon) = ?lk \<and>
      (\<exists>r \<in> set (http_monitors (deferred_Unlock d' a mon)). ID r = ID mon) \<and>
      (\<forall>r \<in> set (http_monitors (deferred_Unlock d' a mon)). ID r = ID mon \<longrightarrow> IsMonitoring r)"
      unfolding e by (intro conjI refl exl all)
  qed
  show ?thesis
  proof (cases "Monitor mon")
    case None
    have W: "Manager_work db a Monitor mon =
        (deferred_Unlock db1 a mon, [Call_Lock, Call_Unlock], Panic)"
      using l None by (simp add: Manager_work_def)
    show ?thesis
      unfolding W prod.case None option.case
      by (intro conjI)
        (simp, simp, rule fin [OF refl], rule refused [OF refl], rule Unlock_effect)
  next
    case (Some res)
    obtain db2 where s: "GormDb_SaveResult db1 (save_err a) res = (db2, save_err a)"
      by (cases "save_err a") (simp_all add: GormDb_SaveResult_def)
    have d2: "http_monitors db2 = http_monitors db1"
      using save [of "save_err a" res] s by simp
    have W: "Manager_work db a Monitor mon =
        (deferred_Unlock db2 a mon, [Call_Lock, Call_SaveResult, Call_Unlock], Return (save_err a))"
      using l Some s by (cases "save_err a") (simp_all add: Manager_work_def)
    show ?thesis
      unfolding W prod.case Some option.case
      by (intro conjI)
        (simp, simp, rule fin [OF d2], rule refused [OF d2], rule Unlock_effect)
  qed
qed

theorem work_witness:
  "snd (GormDb_Lock example_db (lock_err example_answers) example_monitor) = None \<and>
   unlock_err example_answers = None \<and>
   fst (snd (Manager_work example_db example_answers (\<lambda>hm. None) example_monitor)) =
     [Call_Lock, Call_Unlock] \<and>
   snd (snd (Manager_work example_db example_answers (\<lambda>hm. None) example_monitor)) = Panic \<and>
   map IsMonitoring
     (http_monitors (fst (Manager_work example_db example_answers (\<lambda>hm. None) example_monitor))) =
     [False] \<and>
   map LastMonitorTime
     (http_monitors (fst (Manager_work example_db example_answers (\<lambda>hm. None) example_monitor))) =
     [example_now]"
proof -
  have lock: "snd (GormDb_Lock example_db (lock_err example_answers) example_monitor) = None"
    by (simp add: GormDb_Lock_def gorm_Updates_def Let_def example_db_def example_answers_def)
  have un: "unlock_err example_answers = None" "unlock_now example_answers = example_now"
    by (simp_all add: example_answers_def)
  have rows: "http_monitors example_db = [example_monitor]"
    by (simp add: example_db_def)
  obtain db' calls ending where
    w: "Manager_work example_db example_answers (\<lambda>hm. None) example_monitor = (db', calls, ending)"
    by (cases "Manager_work example_db example_answers (\<lambda>hm. None) example_monitor")
  from work_always_unlocks [OF lock, of "\<lambda>hm. None"] w un rows
  have "calls = [Call_Lock, Call_Unlock] \<and> ending = Panic \<and>
        http_monitors db' = [example_monitor\<lparr>IsMonitoring := False, LastMonitorTime := example_now\<rparr>]"
    by simp
  with w lock un show ?thesis by simp
qed

text \<open>
  Claim C3 as stated fails: the context of the work unit is cancelled after \<^verbatim>\<open>Lock\<close>, the
  probe returns its result, \<^verbatim>\<open>SaveResult\<close> and the deferred \<^verbatim>\<open>Unlock\<close> run on the same
  context and are refused, and the work unit ends with the monitor still in flight.
\<close>

theorem work_leaves_flag_set_when_Unlock_is_refused:
  "snd (GormDb_Lock example_db (lock_err cancelled_answers) example_monitor) = None \<and>
   fst (snd (Manager_work example_db cancelled_answers
               (\<lambda>hm. Some (fst (HttpMonitor_Monitor refusing_world hm))) example_monitor)) =
     [Call_Lock, Call_SaveResult, Call_Unlock] \<and>
   snd (snd (Manager_work example_db cancelled_answers
               (\<lambda>hm. Some (fst (HttpMonitor_Monitor refusing_world hm))) example_monitor)) =
     Return (Some ''context canceled'') \<and>
   map IsMonitoring
     (http_monitors (fst (Manager_work example_db cancelled_answers
                            (\<lambda>hm. Some (fst (HttpMonitor_Monitor refusing_world hm)))
                            example_monitor))) =
     [True]"
  by (simp add: Manager_work_def deferred_Unlock_def GormDb_Lock_def GormDb_Unlock_def
      GormDb_SaveResult_def gorm_Updates_def Let_def example_db_def cancelled_answers_def)

end
